theory Spec2Isabelle
  imports Main "HOL-Library.Sublist"
begin

section \<open>The google\_project resource: data model\<close>

text \<open>
  A shallow embedding of \<^verbatim>\<open>google/resource_google_project.go\<close>. The resource
  functions mutate a \<^verbatim>\<open>*schema.ResourceData\<close> and talk to three remote services
  through the clients held by \<^verbatim>\<open>*Config\<close>. Both are made explicit: the record is
  passed through every function and returned updated, and every remote call is
  answered by a function of the events that happened so far and appended to an event log.
\<close>

subsection \<open>Go strings\<close>

definition HasPrefix :: "string \<Rightarrow> string \<Rightarrow> bool" where
  \<comment> \<open>\<^verbatim>\<open>strings.HasPrefix(s, prefix)\<close>\<close>
  "HasPrefix s pre = (take (length pre) s = pre)"

definition TrimPrefix :: "string \<Rightarrow> string \<Rightarrow> string" where
  \<comment> \<open>\<^verbatim>\<open>strings.TrimPrefix(s, prefix)\<close>: \<open>s\<close> itself when the prefix is absent\<close>
  "TrimPrefix s pre = (if HasPrefix s pre then drop (length pre) s else s)"

definition digit :: "nat \<Rightarrow> char" where
  "digit n = char_of (48 + n)"

function FormatNat :: "nat \<Rightarrow> string" where
  "FormatNat n = (if n < 10 then [digit n] else FormatNat (n div 10) @ [digit (n mod 10)])"
  by pat_completeness auto
termination
  by (relation "measure (\<lambda>n. n)") auto

declare FormatNat.simps [simp del]

definition FormatInt :: "int \<Rightarrow> string" where
  \<comment> \<open>\<^verbatim>\<open>strconv.FormatInt(i, 10)\<close>\<close>
  "FormatInt i = (if i < 0 then CHR ''-'' # FormatNat (nat (- i)) else FormatNat (nat i))"

subsection \<open>Errors, panics and results\<close>

text \<open>
  An \<^verbatim>\<open>error\<close> value is either what a collaborator returned (a
  \<^verbatim>\<open>*googleapi.Error\<close> with its HTTP code, or any other error) or the product of
  \<^verbatim>\<open>fmt.Errorf\<close>, kept as the format string with its arguments. A Go function of
  this file ends in one of three ways: it returns \<^verbatim>\<open>nil\<close>, it returns an error, or
  it panics (a failed type assertion \<^verbatim>\<open>v.(string)\<close>, recorded with the dynamic
  type found and the type asserted).
\<close>

datatype error =
    GoogleApiError nat string
  | OtherError string
  | Errorf string "fmtarg list"
and fmtarg =
    AString string
  | AError error
  | ASprintf string "fmtarg list"

datatype panic = InterfaceConversion string string

datatype 'a res = Ok 'a | Err error | Panic panic

subsection \<open>Remote objects\<close>

type_synonym labels = "(string \<times> string) list"
  \<comment> \<open>a \<^verbatim>\<open>map[string]string\<close>; only ever copied as a whole\<close>

record ResourceId =
  ResId :: string
  ResType :: string

record Project =
  ProjectId :: string
  Name :: string
  Parent :: "ResourceId option"
  Labels :: labels
  LifecycleState :: string
  ProjectNumber :: int

text \<open>
  \<^verbatim>\<open>cloudbilling.ProjectBillingInfo\<close>: the name is serialised with
  \<^verbatim>\<open>omitempty\<close>, so an empty name is sent only when \<^verbatim>\<open>ForceSendFields\<close> lists it.
  The zero value \<^verbatim>\<open>cloudbilling.ProjectBillingInfo{}\<close> has an empty name and no forced
  field.
\<close>

record ProjectBillingInfo =
  BillingAccountName :: string
  ForceSendFields :: "string list"

definition ProjectBillingInfo_zero :: ProjectBillingInfo where
  "ProjectBillingInfo_zero = \<lparr>BillingAccountName = '''', ForceSendFields = []\<rparr>"

definition sendsBillingAccountName :: "ProjectBillingInfo \<Rightarrow> bool" where
  \<comment> \<open>whether the serialised payload carries a \<^verbatim>\<open>billingAccountName\<close> field\<close>
  "sendsBillingAccountName ba =
     (BillingAccountName ba \<noteq> '''' \<or> ''BillingAccountName'' \<in> set (ForceSendFields ba))"

type_synonym Operation = string

record Firewall =
  FirewallName :: string

record FirewallList =
  Items :: "Firewall list"
  NextPageToken :: string

text \<open>
  A \<^verbatim>\<open>FirewallsListCall\<close> as built by \<^verbatim>\<open>Firewalls.List(project)\<close> and refined by
  \<^verbatim>\<open>.Filter(f)\<close>; the page token is a request parameter that stays unset unless
  \<^verbatim>\<open>.PageToken(t)\<close> is called on the request.
\<close>

record FirewallsListCall =
  listProject :: string
  listFilter :: "string option"
  listPageToken :: "string option"

definition Firewalls_List :: "string \<Rightarrow> FirewallsListCall" where
  "Firewalls_List projectId = \<lparr>listProject = projectId, listFilter = None, listPageToken = None\<rparr>"

definition Filter :: "FirewallsListCall \<Rightarrow> string \<Rightarrow> FirewallsListCall" where
  "Filter c f = c\<lparr>listFilter := Some f\<rparr>"

subsection \<open>Events and the remote side\<close>

datatype event =
    ProjectsCreate Project
  | ProjectsGet string
  | ProjectsUpdate string Project
  | ProjectsDelete string
  | GetBillingInfo string
  | UpdateBillingInfo string ProjectBillingInfo
  | FirewallsList FirewallsListCall
  | FirewallsDelete string string
  | ResourceManagerOperationWait Operation string
  | ComputeSharedOperationWait Operation string string
  | EnableService string string
  | DeleteComputeNetwork string string
  | Sleep nat
  | SetId string

text \<open>
  \<^verbatim>\<open>*Config\<close>: each client method answers from the events so far, so a remote side
  may answer the same request differently over time. The last four fields are helper
  functions of the provider defined outside this file (the long-running-operation
  waiters, service enablement and network deletion); they are taken as parameters.
\<close>

record Config =
  Projects_Create :: "event list \<Rightarrow> Project \<Rightarrow> error + Operation"
  Projects_Get :: "event list \<Rightarrow> string \<Rightarrow> error + Project"
  Projects_Update :: "event list \<Rightarrow> string \<Rightarrow> Project \<Rightarrow> error + Project"
  Projects_Delete :: "event list \<Rightarrow> string \<Rightarrow> error + unit"
  Projects_GetBillingInfo :: "event list \<Rightarrow> string \<Rightarrow> error + ProjectBillingInfo"
  Projects_UpdateBillingInfo ::
    "event list \<Rightarrow> string \<Rightarrow> ProjectBillingInfo \<Rightarrow> error + ProjectBillingInfo"
  Firewalls_List_Do :: "event list \<Rightarrow> FirewallsListCall \<Rightarrow> error + FirewallList"
  Firewalls_Delete :: "event list \<Rightarrow> string \<Rightarrow> string \<Rightarrow> error + Operation"
  resourceManagerOperationWait :: "event list \<Rightarrow> Operation \<Rightarrow> string \<Rightarrow> error option"
  computeSharedOperationWait :: "event list \<Rightarrow> Operation \<Rightarrow> string \<Rightarrow> string \<Rightarrow> error option"
  enableService :: "event list \<Rightarrow> string \<Rightarrow> string \<Rightarrow> error option"
  deleteComputeNetwork :: "event list \<Rightarrow> string \<Rightarrow> string \<Rightarrow> error option"

subsection \<open>The resource record\<close>

datatype ValueType = TypeString | TypeBool | TypeMap

definition Schema :: "(string \<times> ValueType) list" where
  "Schema =
    [(''project_id'', TypeString),
     (''skip_delete'', TypeBool),
     (''auto_create_network'', TypeBool),
     (''name'', TypeString),
     (''org_id'', TypeString),
     (''folder_id'', TypeString),
     (''policy_data'', TypeString),
     (''policy_etag'', TypeString),
     (''number'', TypeString),
     (''billing_account'', TypeString),
     (''labels'', TypeMap)]"

text \<open>A Go \<^verbatim>\<open>interface{}\<close> holding a field value; \<open>VNil\<close> is the nil interface.\<close>

datatype fval = VNil | VString string | VBool bool | VMap labels

text \<open>
  \<^verbatim>\<open>schema.ResourceData\<close>: the identifier and the field values by key, each store
  holding the values of the keys of its type (an unset field reads as the zero value of
  its type). \<open>changed\<close> lists the keys for which \<^verbatim>\<open>d.HasChange\<close> holds: it compares
  the prior state with the planned values, neither of which \<^verbatim>\<open>d.Set\<close> touches.
\<close>

record ResourceData =
  rdId :: string
  strs :: "string \<Rightarrow> string"
  bools :: "string \<Rightarrow> bool"
  maps :: "string \<Rightarrow> labels"
  changed :: "string list"
  partial :: bool
  partialKeys :: "string list"

definition Zero :: "ValueType \<Rightarrow> fval" where
  "Zero t = (case t of TypeString \<Rightarrow> VString '''' | TypeBool \<Rightarrow> VBool False | TypeMap \<Rightarrow> VMap [])"

definition Get :: "ResourceData \<Rightarrow> string \<Rightarrow> fval" where
  \<comment> \<open>\<^verbatim>\<open>d.Get(key)\<close>: a key the schema does not declare yields the nil interface\<close>
  "Get d key =
     (case map_of Schema key of
        None \<Rightarrow> VNil
      | Some TypeString \<Rightarrow> VString (strs d key)
      | Some TypeBool \<Rightarrow> VBool (bools d key)
      | Some TypeMap \<Rightarrow> VMap (maps d key))"

definition GetOk :: "ResourceData \<Rightarrow> string \<Rightarrow> fval \<times> bool" where
  \<comment> \<open>\<^verbatim>\<open>d.GetOk(key)\<close>: the value, and whether it is set to a non-zero value\<close>
  "GetOk d key =
     (Get d key,
      (case map_of Schema key of None \<Rightarrow> False | Some t \<Rightarrow> Get d key \<noteq> Zero t))"

definition Set_d :: "ResourceData \<Rightarrow> string \<Rightarrow> fval \<Rightarrow> ResourceData" where
  \<comment> \<open>\<^verbatim>\<open>d.Set(key, value)\<close>; its error (unknown key, wrong type) is ignored by every caller\<close>
  "Set_d d key v =
     (case (map_of Schema key, v) of
        (Some TypeString, VString s) \<Rightarrow> d\<lparr>strs := (strs d)(key := s)\<rparr>
      | (Some TypeBool, VBool b) \<Rightarrow> d\<lparr>bools := (bools d)(key := b)\<rparr>
      | (Some TypeMap, VMap m) \<Rightarrow> d\<lparr>maps := (maps d)(key := m)\<rparr>
      | _ \<Rightarrow> d)"

definition HasChange :: "ResourceData \<Rightarrow> string \<Rightarrow> bool" where
  "HasChange d key = (key \<in> set (changed d))"

definition SetPartial :: "ResourceData \<Rightarrow> string \<Rightarrow> ResourceData" where
  "SetPartial d key = (if partial d then d\<lparr>partialKeys := partialKeys d @ [key]\<rparr> else d)"

definition Partial :: "ResourceData \<Rightarrow> bool \<Rightarrow> ResourceData" where
  "Partial d on = d\<lparr>partial := on, partialKeys := (if on then partialKeys d else [])\<rparr>"

fun assertString :: "fval \<Rightarrow> string option" where
  \<comment> \<open>the type assertion \<^verbatim>\<open>v.(string)\<close>; \<open>None\<close> when it panics\<close>
  "assertString (VString s) = Some s"
| "assertString v = None"

fun assertBool :: "fval \<Rightarrow> bool option" where
  \<comment> \<open>the type assertion \<^verbatim>\<open>v.(bool)\<close>; \<open>None\<close> when it panics\<close>
  "assertBool (VBool b) = Some b"
| "assertBool v = None"

fun dynamicType :: "fval \<Rightarrow> string" where
  "dynamicType VNil = ''nil''"
| "dynamicType (VString s) = ''string''"
| "dynamicType (VBool b) = ''bool''"
| "dynamicType (VMap m) = ''map[string]interface {}''"

text \<open>The state threaded through the resource functions: the record and the event log.\<close>

record world =
  rd :: ResourceData
  log :: "event list"

definition emit :: "event \<Rightarrow> world \<Rightarrow> world" where
  "emit e w = w\<lparr>log := log w @ [e]\<rparr>"

definition SetId_w :: "world \<Rightarrow> string \<Rightarrow> world" where
  \<comment> \<open>\<^verbatim>\<open>d.SetId(v)\<close>\<close>
  "SetId_w w v = emit (SetId v) (w\<lparr>rd := (rd w)\<lparr>rdId := v\<rparr>\<rparr>)"

definition Set_w :: "world \<Rightarrow> string \<Rightarrow> fval \<Rightarrow> world" where
  "Set_w w key v = w\<lparr>rd := Set_d (rd w) key v\<rparr>"

section \<open>The resource functions\<close>

text \<open>
  The Go idiom \<^verbatim>\<open>if err != nil { return err }\<close>: carry on with the value and the state
  of a step that returned normally, stop with the state reached otherwise.
\<close>

definition thenR :: "'a res \<times> world \<Rightarrow> ('a \<Rightarrow> world \<Rightarrow> 'b res \<times> world) \<Rightarrow> 'b res \<times> world" where
  "thenR r f =
     (case r of
        (Ok a, w) \<Rightarrow> f a w
      | (Err e, w) \<Rightarrow> (Err e, w)
      | (Panic m, w) \<Rightarrow> (Panic m, w))"

definition getString :: "world \<Rightarrow> string \<Rightarrow> string res \<times> world" where
  \<comment> \<open>\<^verbatim>\<open>d.Get(key).(string)\<close>\<close>
  "getString w key =
     (case assertString (Get (rd w) key) of
        Some s \<Rightarrow> (Ok s, w)
      | None \<Rightarrow> (Panic (InterfaceConversion (dynamicType (Get (rd w) key)) ''string''), w))"

definition getBool :: "world \<Rightarrow> string \<Rightarrow> bool res \<times> world" where
  \<comment> \<open>\<^verbatim>\<open>d.Get(key).(bool)\<close>\<close>
  "getBool w key =
     (case assertBool (Get (rd w) key) of
        Some b \<Rightarrow> (Ok b, w)
      | None \<Rightarrow> (Panic (InterfaceConversion (dynamicType (Get (rd w) key)) ''bool''), w))"

definition prefixedProject :: "string \<Rightarrow> string" where
  "prefixedProject pid = ''projects/'' @ pid"

definition handleNotFoundError :: "error \<Rightarrow> world \<Rightarrow> fmtarg \<Rightarrow> unit res \<times> world" where
  \<comment> \<open>Modelled from the spec: \<^verbatim>\<open>handleNotFoundError\<close> is defined outside this file.
      A remote not-found is translated to "absent": the identifier is cleared and the read
      succeeds; any other error is returned with the resource as context.\<close>
  "handleNotFoundError err w resource =
     (case err of
        GoogleApiError code msg \<Rightarrow>
          if code = 404 then (Ok (), SetId_w w '''')
          else (Err (Errorf ''Error reading %s: %s'' [resource, AError err]), w)
      | _ \<Rightarrow> (Err (Errorf ''Error reading %s: %s'' [resource, AError err]), w))"

definition expandLabels :: "ResourceData \<Rightarrow> labels" where
  \<comment> \<open>Modelled from the spec: \<^verbatim>\<open>expandLabels\<close> is defined outside this file.
      It yields the record's label set, a mapping of string key to string value.\<close>
  "expandLabels d = maps d ''labels''"

definition apostrophe :: string where
  "apostrophe = [char_of (39 :: nat)]"

definition resourceGoogleProjectRead :: "Config \<Rightarrow> world \<Rightarrow> unit res \<times> world" where
  "resourceGoogleProjectRead config w =
     (let pid = rdId (rd w);
          w1 = emit (ProjectsGet pid) w
      in case Projects_Get config (log w) pid of
           Inl err \<Rightarrow> handleNotFoundError err w1 (ASprintf ''Project %q'' [AString pid])
         | Inr p \<Rightarrow>
             if LifecycleState p \<noteq> ''ACTIVE'' then (Ok (), SetId_w w1 '''')
             else
               let w2 = Set_w w1 ''project_id'' (VString pid);
                   w3 = Set_w w2 ''number'' (VString (FormatInt (ProjectNumber p)));
                   w4 = Set_w w3 ''name'' (VString (Name p));
                   w5 = Set_w w4 ''labels'' (VMap (Labels p));
                   w6 = (case Parent p of
                           None \<Rightarrow> w5
                         | Some parent \<Rightarrow>
                             if ResType parent = ''organization'' then
                               Set_w (Set_w w5 ''org_id'' (VString (ResId parent)))
                                 ''folder_id'' (VString '''')
                             else if ResType parent = ''folder'' then
                               Set_w (Set_w w5 ''folder_id'' (VString (ResId parent)))
                                 ''org_id'' (VString '''')
                             else w5);
                   w7 = emit (GetBillingInfo (prefixedProject pid)) w6
               in (case Projects_GetBillingInfo config (log w6) (prefixedProject pid) of
                    Inl err \<Rightarrow>
                      (Err (Errorf ''Error reading billing account for project %q: %v''
                              [AString (prefixedProject pid), AError err]), w7)
                  | Inr ba \<Rightarrow>
                      if BillingAccountName ba \<noteq> '''' then
                        let ba' = TrimPrefix (BillingAccountName ba) ''billingAccounts/''
                        in if BillingAccountName ba = ba' then
                             (Err (Errorf (''Error parsing billing account for project %q. ''
                                           @ ''Expected value to begin with '' @ apostrophe
                                           @ ''billingAccounts/'' @ apostrophe @ '' but got %s'')
                                     [AString (prefixedProject pid),
                                      AString (BillingAccountName ba)]), w7)
                           else (Ok (), Set_w w7 ''billing_account'' (VString ba'))
                      else (Ok (), w7)))"

definition parseFolderId :: "fval \<Rightarrow> string option" where
  \<comment> \<open>\<open>None\<close> when the assertion \<^verbatim>\<open>v.(string)\<close> panics\<close>
  "parseFolderId v =
     (case assertString v of
        None \<Rightarrow> None
      | Some folderId \<Rightarrow>
          if HasPrefix folderId ''folders/'' then Some (drop 8 folderId) else Some folderId)"

definition getParentResourceId :: "ResourceData \<Rightarrow> Project \<Rightarrow> Project res" where
  \<comment> \<open>the Go function always returns \<^verbatim>\<open>nil\<close>; the result is the project it mutated\<close>
  "getParentResourceId d p =
     (case (case GetOk d ''org_id'' of
              (v, True) \<Rightarrow>
                (case assertString v of
                   None \<Rightarrow> Panic (InterfaceConversion (dynamicType v) ''string'')
                 | Some org_id \<Rightarrow>
                     Ok (p\<lparr>Parent := Some \<lparr>ResId = org_id, ResType = ''organization''\<rparr>\<rparr>))
            | (v, False) \<Rightarrow> Ok p) of
        Ok p1 \<Rightarrow>
          (case GetOk d ''folder_id'' of
             (v, True) \<Rightarrow>
               (case parseFolderId v of
                  None \<Rightarrow> Panic (InterfaceConversion (dynamicType v) ''string'')
                | Some folder \<Rightarrow> Ok (p1\<lparr>Parent := Some \<lparr>ResId = folder, ResType = ''folder''\<rparr>\<rparr>))
           | (v, False) \<Rightarrow> Ok p1)
      | Err e \<Rightarrow> Err e
      | Panic m \<Rightarrow> Panic m)"

text \<open>
  The polling loop of \<^verbatim>\<open>updateProjectBillingAccount\<close>,
  \<^verbatim>\<open>for retries := 0; retries < 3; retries++\<close>. \<open>Ok\<close> is leaving the loop (by
  \<^verbatim>\<open>break\<close> or with the condition false), \<open>Err\<close> is the \<^verbatim>\<open>return err\<close> inside.
\<close>

function billingPoll :: "Config \<Rightarrow> string \<Rightarrow> nat \<Rightarrow> world \<Rightarrow> unit res \<times> world" where
  "billingPoll config name retries w =
     (if retries < 3 then
        (case resourceGoogleProjectRead config w of
           (Ok u, w1) \<Rightarrow>
             (case getString w1 ''billing_account'' of
                (Ok b, w2) \<Rightarrow>
                  if b = name then (Ok (), w2)
                  else billingPoll config name (retries + 1) (emit (Sleep 3) w2)
              | (Err e, w2) \<Rightarrow> (Err e, w2)
              | (Panic m, w2) \<Rightarrow> (Panic m, w2))
         | (Err e, w1) \<Rightarrow> (Err e, w1)
         | (Panic m, w1) \<Rightarrow> (Panic m, w1))
      else (Ok (), w))"
  by pat_completeness auto
termination
  by (relation "measure (\<lambda>(config, name, retries, w). 3 - retries)") auto

declare billingPoll.simps [simp del]

definition updateProjectBillingAccount :: "Config \<Rightarrow> world \<Rightarrow> unit res \<times> world" where
  "updateProjectBillingAccount config w =
     (let pid = rdId (rd w) in
      thenR (getString w ''billing_account'') (\<lambda>name w.
        let ba = ProjectBillingInfo_zero;
            ba = (if name \<noteq> '''' then ba\<lparr>BillingAccountName := ''billingAccounts/'' @ name\<rparr>
                  else ba);
            w1 = emit (UpdateBillingInfo (prefixedProject pid) ba) w
        in case Projects_UpdateBillingInfo config (log w) (prefixedProject pid) ba of
             Inl err \<Rightarrow>
               (Err (Errorf ''Error setting billing account %q for project %q: %v''
                       [AString name, AString (prefixedProject pid), AError err]),
                Set_w w1 ''billing_account'' (VString ''''))
           | Inr _ \<Rightarrow>
               thenR (billingPoll config name 0 w1) (\<lambda>_ w.
               thenR (getString w ''billing_account'') (\<lambda>b w.
                 if b \<noteq> name then
                   thenR (getString w ''billding_account'') (\<lambda>waiting w.
                     (Err (Errorf (''Timed out waiting for billing account to return correct ''
                                   @ ''value.  Waiting for %s, got %s.'')
                             [AString waiting, AString name]), w))
                 else (Ok (), w)))))"

definition resourceGoogleProjectUpdate :: "Config \<Rightarrow> world \<Rightarrow> unit res \<times> world" where
  "resourceGoogleProjectUpdate config w =
     (let pid = rdId (rd w) in
      thenR (getString w ''name'') (\<lambda>project_name w.
        let w1 = emit (ProjectsGet pid) w
        in case Projects_Get config (log w) pid of
             Inl err \<Rightarrow>
               (case err of
                  GoogleApiError code msg \<Rightarrow>
                    if code = 404 then
                      (Err (Errorf ''Project %q does not exist.'' [AString pid]), w1)
                    else (Err (Errorf ''Error checking project %q: %s''
                                 [AString pid, AError err]), w1)
                | _ \<Rightarrow> (Err (Errorf ''Error checking project %q: %s''
                                [AString pid, AError err]), w1))
           | Inr p \<Rightarrow>
               thenR
                 (let w2 = w1\<lparr>rd := Partial (rd w1) True\<rparr> in
                  if HasChange (rd w2) ''name'' then
                    (let p1 = p\<lparr>Name := project_name\<rparr>;
                         w3 = emit (ProjectsUpdate (ProjectId p1) p1) w2
                     in case Projects_Update config (log w2) (ProjectId p1) p1 of
                          Inl err \<Rightarrow>
                            (Err (Errorf ''Error updating project %q: %s''
                                    [AString project_name, AError err]), w3)
                        | Inr p2 \<Rightarrow> (Ok p2, w3\<lparr>rd := SetPartial (rd w3) ''name''\<rparr>))
                  else (Ok p, w2))
               (\<lambda>p w.
               thenR
                 (if HasChange (rd w) ''org_id'' \<or> HasChange (rd w) ''folder_id'' then
                    (case getParentResourceId (rd w) p of
                       Ok p1 \<Rightarrow>
                         (let w3 = emit (ProjectsUpdate (ProjectId p1) p1) w
                          in case Projects_Update config (log w) (ProjectId p1) p1 of
                               Inl err \<Rightarrow>
                                 (Err (Errorf ''Error updating project %q: %s''
                                         [AString project_name, AError err]), w3)
                             | Inr p2 \<Rightarrow>
                                 (Ok p2,
                                  w3\<lparr>rd := SetPartial (SetPartial (rd w3) ''org_id'')
                                               ''folder_id''\<rparr>))
                     | Err e \<Rightarrow> (Err e, w)
                     | Panic m \<Rightarrow> (Panic m, w))
                  else (Ok p, w))
               (\<lambda>p w.
               thenR
                 (if HasChange (rd w) ''billing_account'' then
                    thenR (updateProjectBillingAccount config w) (\<lambda>_ w. (Ok p, w))
                  else (Ok p, w))
               (\<lambda>p w.
               thenR
                 (if HasChange (rd w) ''labels'' then
                    (let p1 = p\<lparr>Labels := expandLabels (rd w)\<rparr>;
                         w3 = emit (ProjectsUpdate (ProjectId p1) p1) w
                     in case Projects_Update config (log w) (ProjectId p1) p1 of
                          Inl err \<Rightarrow>
                            (Err (Errorf ''Error updating project %q: %s''
                                    [AString project_name, AError err]), w3)
                        | Inr p2 \<Rightarrow> (Ok p2, w3))
                  else (Ok p, w))
               (\<lambda>p w. (Ok (), w\<lparr>rd := Partial (rd w) False\<rparr>)))))))"

definition resourceGoogleProjectDelete :: "Config \<Rightarrow> world \<Rightarrow> unit res \<times> world" where
  "resourceGoogleProjectDelete config w =
     thenR (getBool w ''skip_delete'') (\<lambda>skip_delete w.
       if \<not> skip_delete then
         (let pid = rdId (rd w);
              w1 = emit (ProjectsDelete pid) w
          in case Projects_Delete config (log w) pid of
               Inl err \<Rightarrow>
                 (Err (Errorf ''Error deleting project %q: %s'' [AString pid, AError err]), w1)
             | Inr _ \<Rightarrow> (Ok (), SetId_w w1 ''''))
       else (Ok (), SetId_w w ''''))"

definition resourceProjectImportState :: "world \<Rightarrow> world" where
  "resourceProjectImportState w = Set_w w ''auto_create_network'' (VBool True)"

subsection \<open>Cascading network deletion and Create\<close>

text \<open>The inner loop \<^verbatim>\<open>for _, firewall := range resp.Items\<close>.\<close>

fun deleteFirewalls :: "Config \<Rightarrow> string \<Rightarrow> Firewall list \<Rightarrow> world \<Rightarrow> unit res \<times> world" where
  "deleteFirewalls config projectId [] w = (Ok (), w)"
| "deleteFirewalls config projectId (firewall # rest) w =
     (let w1 = emit (FirewallsDelete projectId (FirewallName firewall)) w
      in case Firewalls_Delete config (log w) projectId (FirewallName firewall) of
           Inl err \<Rightarrow> (Err (Errorf ''Error deleting firewall: %s'' [AError err]), w1)
         | Inr op \<Rightarrow>
             (let w2 = emit (ComputeSharedOperationWait op projectId ''Deleting Firewall'') w1
              in case computeSharedOperationWait config (log w1) op projectId
                        ''Deleting Firewall'' of
                   Some err \<Rightarrow> (Err err, w2)
                 | None \<Rightarrow> deleteFirewalls config projectId rest w2))"

text \<open>
  The outer loop \<^verbatim>\<open>for paginate := true; paginate; { ... }\<close> with its variable
  \<^verbatim>\<open>token\<close>. Nothing bounds the number of pages a remote side may announce, so the loop
  runs on fuel (one unit per listing request); \<open>None\<close> is running out of it.
\<close>

fun paginateFirewalls ::
  "nat \<Rightarrow> Config \<Rightarrow> string \<Rightarrow> string \<Rightarrow> string \<Rightarrow> world \<Rightarrow> (unit res \<times> world) option" where
  "paginateFirewalls 0 config projectId networkLink token w = None"
| "paginateFirewalls (Suc fuel) config projectId networkLink token w =
     (let filter = ''network eq '' @ networkLink;
          call = Filter (Firewalls_List projectId) filter;
          w1 = emit (FirewallsList call) w
      in case Firewalls_List_Do config (log w) call of
           Inl err \<Rightarrow>
             Some (Err (Errorf ''Error listing firewall rules in proj: %s'' [AError err]), w1)
         | Inr resp \<Rightarrow>
             (case deleteFirewalls config projectId (Items resp) w1 of
                (Ok u, w2) \<Rightarrow>
                  (let token = NextPageToken resp;
                       paginate = (token \<noteq> '''')
                   in if paginate then
                        paginateFirewalls fuel config projectId networkLink token w2
                      else Some (Ok (), w2))
              | (Err e, w2) \<Rightarrow> Some (Err e, w2)
              | (Panic m, w2) \<Rightarrow> Some (Panic m, w2)))"

definition forceDeleteComputeNetwork ::
  "nat \<Rightarrow> Config \<Rightarrow> string \<Rightarrow> string \<Rightarrow> world \<Rightarrow> (unit res \<times> world) option" where
  "forceDeleteComputeNetwork fuel config projectId networkName w =
     (let networkLink = ''https://www.googleapis.com/compute/v1/projects/'' @ projectId
                        @ ''/global/networks/'' @ networkName;
          token = ''''
      in case paginateFirewalls fuel config projectId networkLink token w of
           None \<Rightarrow> None
         | Some (Ok u, w1) \<Rightarrow>
             (let w2 = emit (DeleteComputeNetwork projectId networkName) w1
              in case deleteComputeNetwork config (log w1) projectId networkName of
                   Some err \<Rightarrow> Some (Err err, w2)
                 | None \<Rightarrow> Some (Ok (), w2))
         | Some (Err e, w1) \<Rightarrow> Some (Err e, w1)
         | Some (Panic m, w1) \<Rightarrow> Some (Panic m, w1))"

text \<open>
  Create, in two parts: everything up to and including the wait on the creation
  operation is bounded; what follows a successful wait may delete the default network,
  hence the fuel.
\<close>

definition createAfterWait ::
  "nat \<Rightarrow> Config \<Rightarrow> Project \<Rightarrow> world \<Rightarrow> (unit res \<times> world) option" where
  "createAfterWait fuel config project w =
     (case (if snd (GetOk (rd w) ''billing_account'') then updateProjectBillingAccount config w
            else (Ok (), w)) of
        (Ok u, w1) \<Rightarrow>
          (case resourceGoogleProjectRead config w1 of
             (Ok u, w2) \<Rightarrow>
               (case getBool w2 ''auto_create_network'' of
                  (Ok auto_create_network, w3) \<Rightarrow>
                    if \<not> auto_create_network then
                      (let w4 = emit (EnableService ''compute.googleapis.com''
                                        (ProjectId project)) w3
                       in case enableService config (log w3) ''compute.googleapis.com''
                                 (ProjectId project) of
                            Some err \<Rightarrow>
                              Some (Err (Errorf (''Error enabling the Compute Engine API ''
                                            @ ''required to delete the default network: %s'')
                                      [AError err]), w4)
                          | None \<Rightarrow>
                              (case forceDeleteComputeNetwork fuel config (ProjectId project)
                                      ''default'' w4 of
                                 None \<Rightarrow> None
                               | Some (Ok u, w5) \<Rightarrow> Some (Ok (), w5)
                               | Some (Err err, w5) \<Rightarrow>
                                   Some (Err (Errorf
                                           ''Error deleting default network in project %s: %s''
                                           [AString (ProjectId project), AError err]), w5)
                               | Some (Panic m, w5) \<Rightarrow> Some (Panic m, w5)))
                    else Some (Ok (), w3)
                | (Err e, w3) \<Rightarrow> Some (Err e, w3)
                | (Panic m, w3) \<Rightarrow> Some (Panic m, w3))
           | (Err e, w2) \<Rightarrow> Some (Err e, w2)
           | (Panic m, w2) \<Rightarrow> Some (Panic m, w2))
      | (Err e, w1) \<Rightarrow> Some (Err e, w1)
      | (Panic m, w1) \<Rightarrow> Some (Panic m, w1))"

definition resourceGoogleProjectCreate ::
  "nat \<Rightarrow> Config \<Rightarrow> world \<Rightarrow> (unit res \<times> world) option" where
  "resourceGoogleProjectCreate fuel config w =
     (case getString w ''project_id'' of
        (Ok pid, _) \<Rightarrow>
          (case getString w ''name'' of
             (Ok name, _) \<Rightarrow>
               (let project = \<lparr>ProjectId = pid, Name = name, Parent = None, Labels = [],
                                LifecycleState = '''', ProjectNumber = 0\<rparr>
                in case getParentResourceId (rd w) project of
                     Ok project \<Rightarrow>
                       (let project = (if snd (GetOk (rd w) ''labels'')
                                       then project\<lparr>Labels := expandLabels (rd w)\<rparr>
                                       else project);
                            w1 = emit (ProjectsCreate project) w
                        in case Projects_Create config (log w) project of
                             Inl err \<Rightarrow>
                               Some (Err (Errorf ''Error creating project %s (%s): %s.''
                                       [AString (ProjectId project), AString (Name project),
                                        AError err]), w1)
                           | Inr op \<Rightarrow>
                               (let w2 = SetId_w w1 pid;
                                    w3 = emit (ResourceManagerOperationWait op
                                                 ''project to create'') w2
                                in case resourceManagerOperationWait config (log w2) op
                                          ''project to create'' of
                                     Some waitErr \<Rightarrow> Some (Err waitErr, SetId_w w3 '''')
                                   | None \<Rightarrow> createAfterWait fuel config project w3))
                   | Err e \<Rightarrow> Some (Err e, w)
                   | Panic m \<Rightarrow> Some (Panic m, w))
           | (Err e, _) \<Rightarrow> Some (Err e, w)
           | (Panic m, _) \<Rightarrow> Some (Panic m, w))
      | (Err e, _) \<Rightarrow> Some (Err e, w)
      | (Panic m, _) \<Rightarrow> Some (Panic m, w))"

subsection \<open>Observing the event log\<close>

fun isUpdateBillingInfo :: "event \<Rightarrow> bool" where
  "isUpdateBillingInfo (UpdateBillingInfo name ba) = True"
| "isUpdateBillingInfo e = False"

fun isFirewallsList :: "event \<Rightarrow> bool" where
  "isFirewallsList (FirewallsList c) = True"
| "isFirewallsList e = False"

definition newEvents :: "world \<Rightarrow> world \<Rightarrow> event list" where
  \<comment> \<open>the events a run from \<open>w\<close> to \<open>w'\<close> appended\<close>
  "newEvents w w' = drop (length (log w)) (log w')"

subsection \<open>Concrete records and remote sides\<close>

definition sampleProject :: Project where
  "sampleProject =
     \<lparr>ProjectId = ''p1'', Name = ''Test'',
      Parent = Some \<lparr>ResId = ''123'', ResType = ''organization''\<rparr>,
      Labels = [(''env'', ''dev'')], LifecycleState = ''ACTIVE'', ProjectNumber = 42\<rparr>"

definition sampleConfig :: Config where
  \<comment> \<open>every call succeeds; the project is active and linked to the billing account OLD\<close>
  "sampleConfig =
     \<lparr>Projects_Create = (\<lambda>h p. Inr ''operations/create''),
      Projects_Get = (\<lambda>h pid. Inr sampleProject),
      Projects_Update = (\<lambda>h pid p. Inr p),
      Projects_Delete = (\<lambda>h pid. Inr ()),
      Projects_GetBillingInfo =
        (\<lambda>h name. Inr \<lparr>BillingAccountName = ''billingAccounts/OLD'', ForceSendFields = []\<rparr>),
      Projects_UpdateBillingInfo = (\<lambda>h name ba. Inr ba),
      Firewalls_List_Do = (\<lambda>h c. Inr \<lparr>Items = [], NextPageToken = ''''\<rparr>),
      Firewalls_Delete = (\<lambda>h projectId name. Inr ''operations/firewall''),
      resourceManagerOperationWait = (\<lambda>h op activity. None),
      computeSharedOperationWait = (\<lambda>h op projectId activity. None),
      enableService = (\<lambda>h service projectId. None),
      deleteComputeNetwork = (\<lambda>h projectId networkName. None)\<rparr>"

definition sampleData :: ResourceData where
  "sampleData =
     \<lparr>rdId = ''p1'',
      strs = (\<lambda>key. '''')(''project_id'' := ''p1'', ''name'' := ''Test'',
                            ''billing_account'' := ''NEW''),
      bools = (\<lambda>key. False)(''auto_create_network'' := True),
      maps = (\<lambda>key. [])(''labels'' := [(''env'', ''prod'')]),
      changed = [],
      partial = False,
      partialKeys = []\<rparr>"

definition sampleWorld :: world where
  "sampleWorld = \<lparr>rd = sampleData, log = []\<rparr>"

definition twoPageConfig :: Config where
  \<comment> \<open>the first listing announces a further page under the token t1; later listings do not\<close>
  "twoPageConfig =
     sampleConfig\<lparr>Firewalls_List_Do :=
       (\<lambda>h c. if filter isFirewallsList h = []
               then Inr \<lparr>Items = [\<lparr>FirewallName = ''default-allow-ssh''\<rparr>], NextPageToken = ''t1''\<rparr>
               else Inr \<lparr>Items = [\<lparr>FirewallName = ''default-allow-icmp''\<rparr>], NextPageToken = ''''\<rparr>)\<rparr>"

definition inactiveConfig :: Config where
  \<comment> \<open>the project is pending deletion\<close>
  "inactiveConfig =
     sampleConfig\<lparr>Projects_Get :=
       (\<lambda>h pid. Inr (sampleProject\<lparr>LifecycleState := ''DELETE_REQUESTED''\<rparr>))\<rparr>"

definition foreignBillingConfig :: Config where
  \<comment> \<open>the billing account name comes back without the expected prefix\<close>
  "foreignBillingConfig =
     sampleConfig\<lparr>Projects_GetBillingInfo :=
       (\<lambda>h name. Inr \<lparr>BillingAccountName = ''accounts/OLD'', ForceSendFields = []\<rparr>)\<rparr>"

definition unlinkedConfig :: Config where
  \<comment> \<open>the project has no billing account\<close>
  "unlinkedConfig =
     sampleConfig\<lparr>Projects_GetBillingInfo :=
       (\<lambda>h name. Inr \<lparr>BillingAccountName = '''', ForceSendFields = []\<rparr>)\<rparr>"

definition waitFailsConfig :: Config where
  \<comment> \<open>the creation is accepted, the operation then fails\<close>
  "waitFailsConfig =
     sampleConfig\<lparr>resourceManagerOperationWait :=
       (\<lambda>h op activity. Some (OtherError ''operation failed''))\<rparr>"

definition labelsChangedWorld :: world where
  "labelsChangedWorld = \<lparr>rd = sampleData\<lparr>changed := [''labels'']\<rparr>, log = []\<rparr>"

definition bothParentsData :: ResourceData where
  \<comment> \<open>organization and folder both set\<close>
  "bothParentsData =
     sampleData\<lparr>strs := (strs sampleData)(''org_id'' := ''123'',
                                              ''folder_id'' := ''folders/456'')\<rparr>"

definition unlinkWorld :: world where
  \<comment> \<open>the desired billing account is empty: unlink\<close>
  "unlinkWorld =
     \<lparr>rd = sampleData\<lparr>strs := (strs sampleData)(''billing_account'' := '''')\<rparr>, log = []\<rparr>"

section \<open>Facts about the record, strings and the log\<close>

text \<open>Reading and writing the fields the schema declares, key by key.\<close>

lemma Get_strs:
  "Get d ''project_id'' = VString (strs d ''project_id'')"
  "Get d ''name'' = VString (strs d ''name'')"
  "Get d ''org_id'' = VString (strs d ''org_id'')"
  "Get d ''folder_id'' = VString (strs d ''folder_id'')"
  "Get d ''billing_account'' = VString (strs d ''billing_account'')"
  "Get d ''billding_account'' = VNil"
  "Get d ''skip_delete'' = VBool (bools d ''skip_delete'')"
  "Get d ''auto_create_network'' = VBool (bools d ''auto_create_network'')"
  "Get d ''labels'' = VMap (maps d ''labels'')"
  by (simp_all add: Get_def Schema_def)

lemma Set_d_keys:
  "Set_d d ''project_id'' (VString s) = d\<lparr>strs := (strs d)(''project_id'' := s)\<rparr>"
  "Set_d d ''number'' (VString s) = d\<lparr>strs := (strs d)(''number'' := s)\<rparr>"
  "Set_d d ''name'' (VString s) = d\<lparr>strs := (strs d)(''name'' := s)\<rparr>"
  "Set_d d ''org_id'' (VString s) = d\<lparr>strs := (strs d)(''org_id'' := s)\<rparr>"
  "Set_d d ''folder_id'' (VString s) = d\<lparr>strs := (strs d)(''folder_id'' := s)\<rparr>"
  "Set_d d ''billing_account'' (VString s) = d\<lparr>strs := (strs d)(''billing_account'' := s)\<rparr>"
  "Set_d d ''labels'' (VMap m) = d\<lparr>maps := (maps d)(''labels'' := m)\<rparr>"
  "Set_d d ''auto_create_network'' (VBool b) = d\<lparr>bools := (bools d)(''auto_create_network'' := b)\<rparr>"
  by (simp_all add: Set_d_def Schema_def)

lemma getString_keys:
  "getString w ''project_id'' = (Ok (strs (rd w) ''project_id''), w)"
  "getString w ''name'' = (Ok (strs (rd w) ''name''), w)"
  "getString w ''billing_account'' = (Ok (strs (rd w) ''billing_account''), w)"
  "getString w ''billding_account'' = (Panic (InterfaceConversion ''nil'' ''string''), w)"
  by (simp_all add: getString_def Get_strs)

lemma getBool_keys:
  "getBool w ''skip_delete'' = (Ok (bools (rd w) ''skip_delete''), w)"
  "getBool w ''auto_create_network'' = (Ok (bools (rd w) ''auto_create_network''), w)"
  by (simp_all add: getBool_def Get_strs)

lemma GetOk_keys:
  "GetOk d ''org_id'' = (VString (strs d ''org_id''), strs d ''org_id'' \<noteq> '''')"
  "GetOk d ''folder_id'' = (VString (strs d ''folder_id''), strs d ''folder_id'' \<noteq> '''')"
  "GetOk d ''billing_account'' = (VString (strs d ''billing_account''), strs d ''billing_account'' \<noteq> '''')"
  "GetOk d ''labels'' = (VMap (maps d ''labels''), maps d ''labels'' \<noteq> [])"
  by (simp_all add: GetOk_def Get_def Schema_def Zero_def)

lemma Set_w_log [simp]: "log (Set_w w key v) = log w"
  by (simp add: Set_w_def)

lemma emit_log [simp]: "log (emit e w) = log w @ [e]"
  by (simp add: emit_def)

lemma emit_rd [simp]: "rd (emit e w) = rd w"
  by (simp add: emit_def)

lemma SetId_w_log [simp]: "log (SetId_w w v) = log w @ [SetId v]"
  by (simp add: SetId_w_def)

lemma Set_w_strs:
  "strs (rd (Set_w w ''project_id'' (VString s))) = (strs (rd w))(''project_id'' := s)"
  "strs (rd (Set_w w ''number'' (VString s))) = (strs (rd w))(''number'' := s)"
  "strs (rd (Set_w w ''name'' (VString s))) = (strs (rd w))(''name'' := s)"
  "strs (rd (Set_w w ''org_id'' (VString s))) = (strs (rd w))(''org_id'' := s)"
  "strs (rd (Set_w w ''folder_id'' (VString s))) = (strs (rd w))(''folder_id'' := s)"
  "strs (rd (Set_w w ''billing_account'' (VString s))) = (strs (rd w))(''billing_account'' := s)"
  "strs (rd (Set_w w ''labels'' (VMap m))) = strs (rd w)"
  by (simp_all add: Set_w_def Set_d_keys)

lemma thenR_simps [simp]:
  "thenR (Ok a, w) f = f a w"
  "thenR (Err e, w) f = (Err e, w)"
  "thenR (Panic m, w) f = (Panic m, w)"
  by (simp_all add: thenR_def)

lemma TrimPrefix_append: "HasPrefix s pre \<Longrightarrow> pre @ TrimPrefix s pre = s"
  unfolding HasPrefix_def TrimPrefix_def by (metis append_take_drop_id)

lemma TrimPrefix_same:
  assumes "pre \<noteq> []" and "s \<noteq> []"
  shows "s = TrimPrefix s pre \<longleftrightarrow> \<not> HasPrefix s pre"
proof (cases "HasPrefix s pre")
  case True
  from assms have "length (drop (length pre) s) < length s"
    by simp
  then have "drop (length pre) s \<noteq> s"
    by (metis less_irrefl)
  with True show ?thesis
    by (simp add: TrimPrefix_def)
next
  case False
  then show ?thesis
    by (simp add: TrimPrefix_def)
qed

lemma billing_prefix_same:
  "s \<noteq> [] \<Longrightarrow> (s = TrimPrefix s ''billingAccounts/'') = (\<not> HasPrefix s ''billingAccounts/'')"
  by (rule TrimPrefix_same) simp_all

lemmas model_defs =
  resourceGoogleProjectRead_def updateProjectBillingAccount_def Let_def
  getString_def getBool_def Get_def GetOk_def Set_w_def Set_d_def Schema_def Zero_def
  SetId_w_def emit_def thenR_def prefixedProject_def TrimPrefix_def HasPrefix_def
  ProjectBillingInfo_zero_def handleNotFoundError_def

lemmas sample_defs =
  sampleConfig_def sampleWorld_def sampleData_def sampleProject_def inactiveConfig_def
  foreignBillingConfig_def unlinkedConfig_def waitFailsConfig_def labelsChangedWorld_def
  bothParentsData_def unlinkWorld_def

section \<open>Read\<close>

text \<open>
  For an active project Read reaches the billing request in a state \<open>w7\<close> whose log
  holds the two requests and whose billing field is still the one it started with.
\<close>

lemma Read_active_unfold:
  assumes "Projects_Get config (log w) (rdId (rd w)) = Inr p"
      and "LifecycleState p = ''ACTIVE''"
  shows "\<exists>w7. log w7 = log w @ [ProjectsGet (rdId (rd w)), GetBillingInfo (prefixedProject (rdId (rd w)))]
           \<and> strs (rd w7) ''billing_account'' = strs (rd w) ''billing_account''
           \<and> resourceGoogleProjectRead config w =
              (case Projects_GetBillingInfo config (log w @ [ProjectsGet (rdId (rd w))])
                      (prefixedProject (rdId (rd w))) of
                 Inl err \<Rightarrow>
                   (Err (Errorf ''Error reading billing account for project %q: %v''
                           [AString (prefixedProject (rdId (rd w))), AError err]), w7)
               | Inr ba \<Rightarrow>
                   if BillingAccountName ba \<noteq> '''' then
                     if BillingAccountName ba = TrimPrefix (BillingAccountName ba) ''billingAccounts/'' then
                          (Err (Errorf (''Error parsing billing account for project %q. ''
                                        @ ''Expected value to begin with '' @ apostrophe
                                        @ ''billingAccounts/'' @ apostrophe @ '' but got %s'')
                                  [AString (prefixedProject (rdId (rd w))),
                                   AString (BillingAccountName ba)]), w7)
                     else (Ok (), Set_w w7 ''billing_account''
                                    (VString (TrimPrefix (BillingAccountName ba) ''billingAccounts/'')))
                   else (Ok (), w7))"
proof -
  define pid where "pid = rdId (rd w)"
  define w5 where "w5 = Set_w (Set_w (Set_w (Set_w (emit (ProjectsGet pid) w)
      ''project_id'' (VString pid))
      ''number'' (VString (FormatInt (ProjectNumber p))))
      ''name'' (VString (Name p)))
      ''labels'' (VMap (Labels p))"
  define w6 where "w6 = (case Parent p of
       None \<Rightarrow> w5
     | Some parent \<Rightarrow>
         if ResType parent = ''organization'' then
           Set_w (Set_w w5 ''org_id'' (VString (ResId parent))) ''folder_id'' (VString [])
         else if ResType parent = ''folder'' then
           Set_w (Set_w w5 ''folder_id'' (VString (ResId parent))) ''org_id'' (VString [])
         else w5)"
  define w7 where "w7 = emit (GetBillingInfo (prefixedProject pid)) w6"
  have l5: "log w5 = log w @ [ProjectsGet pid]"
    and s5: "strs (rd w5) ''billing_account'' = strs (rd w) ''billing_account''"
    by (simp_all add: w5_def Set_w_strs)
  have l6: "log w6 = log w @ [ProjectsGet pid]"
    and s6: "strs (rd w6) ''billing_account'' = strs (rd w) ''billing_account''"
    by (simp_all add: w6_def l5 s5 Set_w_strs split: option.split)
  have l7: "log w7 = log w @ [ProjectsGet pid, GetBillingInfo (prefixedProject pid)]"
    and s7: "strs (rd w7) ''billing_account'' = strs (rd w) ''billing_account''"
    by (simp_all add: w7_def l6 s6)
  have "resourceGoogleProjectRead config w =
          (case Projects_GetBillingInfo config (log w6) (prefixedProject pid) of
             Inl err \<Rightarrow>
               (Err (Errorf ''Error reading billing account for project %q: %v''
                       [AString (prefixedProject pid), AError err]), w7)
           | Inr ba \<Rightarrow>
               if BillingAccountName ba \<noteq> [] then
                 if BillingAccountName ba = TrimPrefix (BillingAccountName ba) ''billingAccounts/'' then
                      (Err (Errorf (''Error parsing billing account for project %q. ''
                                    @ ''Expected value to begin with '' @ apostrophe
                                    @ ''billingAccounts/'' @ apostrophe @ '' but got %s'')
                              [AString (prefixedProject pid),
                               AString (BillingAccountName ba)]), w7)
                 else (Ok (), Set_w w7 ''billing_account''
                                (VString (TrimPrefix (BillingAccountName ba) ''billingAccounts/'')))
               else (Ok (), w7))"
    using assms unfolding l6
    by (cases "Projects_GetBillingInfo config (log w @ [ProjectsGet pid]) (prefixedProject pid)")
       (simp_all add: resourceGoogleProjectRead_def Let_def w7_def w6_def w5_def pid_def
          split: option.split)
  with l7 s7 show ?thesis
    unfolding l6 pid_def by blast
qed

lemma Read_active:
  assumes "Projects_Get config (log w) (rdId (rd w)) = Inr p"
      and "LifecycleState p = ''ACTIVE''"
      and "Projects_GetBillingInfo config (log w @ [ProjectsGet (rdId (rd w))])
             (prefixedProject (rdId (rd w))) = Inr ba"
  shows "fst (resourceGoogleProjectRead config w) =
           (if BillingAccountName ba = '''' \<or> HasPrefix (BillingAccountName ba) ''billingAccounts/''
            then Ok ()
            else Err (Errorf (''Error parsing billing account for project %q. ''
                              @ ''Expected value to begin with '' @ apostrophe
                              @ ''billingAccounts/'' @ apostrophe @ '' but got %s'')
                        [AString (prefixedProject (rdId (rd w))),
                         AString (BillingAccountName ba)]))"
    and "strs (rd (snd (resourceGoogleProjectRead config w))) ''billing_account'' =
           (if BillingAccountName ba \<noteq> '''' \<and> HasPrefix (BillingAccountName ba) ''billingAccounts/''
            then TrimPrefix (BillingAccountName ba) ''billingAccounts/''
            else strs (rd w) ''billing_account'')"
    and "log (snd (resourceGoogleProjectRead config w)) =
           log w @ [ProjectsGet (rdId (rd w)), GetBillingInfo (prefixedProject (rdId (rd w)))]"
proof -
  from Read_active_unfold [OF assms(1,2)] assms(3) obtain w7 where
    w7: "log w7 = log w @ [ProjectsGet (rdId (rd w)), GetBillingInfo (prefixedProject (rdId (rd w)))]"
        "strs (rd w7) ''billing_account'' = strs (rd w) ''billing_account''"
    and r: "resourceGoogleProjectRead config w =
       (if BillingAccountName ba \<noteq> '''' then
          if BillingAccountName ba = TrimPrefix (BillingAccountName ba) ''billingAccounts/'' then
            (Err (Errorf (''Error parsing billing account for project %q. ''
                          @ ''Expected value to begin with '' @ apostrophe
                          @ ''billingAccounts/'' @ apostrophe @ '' but got %s'')
                    [AString (prefixedProject (rdId (rd w))),
                     AString (BillingAccountName ba)]), w7)
          else (Ok (), Set_w w7 ''billing_account''
                         (VString (TrimPrefix (BillingAccountName ba) ''billingAccounts/'')))
        else (Ok (), w7))"
    by auto
  show "fst (resourceGoogleProjectRead config w) =
           (if BillingAccountName ba = '''' \<or> HasPrefix (BillingAccountName ba) ''billingAccounts/''
            then Ok ()
            else Err (Errorf (''Error parsing billing account for project %q. ''
                              @ ''Expected value to begin with '' @ apostrophe
                              @ ''billingAccounts/'' @ apostrophe @ '' but got %s'')
                        [AString (prefixedProject (rdId (rd w))),
                         AString (BillingAccountName ba)]))"
    unfolding r using billing_prefix_same [of "BillingAccountName ba"] by simp
  show "strs (rd (snd (resourceGoogleProjectRead config w))) ''billing_account'' =
           (if BillingAccountName ba \<noteq> '''' \<and> HasPrefix (BillingAccountName ba) ''billingAccounts/''
            then TrimPrefix (BillingAccountName ba) ''billingAccounts/''
            else strs (rd w) ''billing_account'')"
    unfolding r using billing_prefix_same [of "BillingAccountName ba"] w7(2)
    by (simp add: Set_w_strs)
  show "log (snd (resourceGoogleProjectRead config w)) =
           log w @ [ProjectsGet (rdId (rd w)), GetBillingInfo (prefixedProject (rdId (rd w)))]"
    unfolding r using w7(1) by simp
qed

lemma handleNotFoundError_log:
  "\<exists>es. log (snd (handleNotFoundError err w resource)) = log w @ es \<and>
        (\<forall>e \<in> set es. \<not> isUpdateBillingInfo e)"
  by (cases err) (simp_all add: handleNotFoundError_def)

lemma Read_log:
  "\<exists>es. log (snd (resourceGoogleProjectRead config w)) = log w @ es \<and>
        (\<forall>e \<in> set es. \<not> isUpdateBillingInfo e)"
proof (cases "Projects_Get config (log w) (rdId (rd w))")
  case (Inl err)
  define w1 where "w1 = emit (ProjectsGet (rdId (rd w))) w"
  obtain es where "log (snd (handleNotFoundError err w1
      (ASprintf ''Project %q'' [AString (rdId (rd w))]))) = log w1 @ es"
      "\<forall>e \<in> set es. \<not> isUpdateBillingInfo e"
    using handleNotFoundError_log by blast
  then have "log (snd (resourceGoogleProjectRead config w)) = log w @ ProjectsGet (rdId (rd w)) # es
      \<and> (\<forall>e \<in> set (ProjectsGet (rdId (rd w)) # es). \<not> isUpdateBillingInfo e)"
    using Inl by (simp add: resourceGoogleProjectRead_def Let_def w1_def)
  then show ?thesis by blast
next
  case (Inr p)
  show ?thesis
  proof (cases "LifecycleState p = ''ACTIVE''")
    case False
    with Inr have "log (snd (resourceGoogleProjectRead config w)) =
        log w @ [ProjectsGet (rdId (rd w)), SetId []]"
      by (simp add: resourceGoogleProjectRead_def Let_def)
    then show ?thesis by simp
  next
    case True
    from Read_active_unfold [OF Inr True] obtain w7 r where
      "log w7 = log w @ [ProjectsGet (rdId (rd w)), GetBillingInfo (prefixedProject (rdId (rd w)))]"
      "resourceGoogleProjectRead config w = (r, w7) \<or>
       resourceGoogleProjectRead config w = (r, Set_w w7 ''billing_account''
          (VString (TrimPrefix (BillingAccountName
             (projr (Projects_GetBillingInfo config (log w @ [ProjectsGet (rdId (rd w))])
                      (prefixedProject (rdId (rd w)))))) ''billingAccounts/'')))"
      by (cases "Projects_GetBillingInfo config (log w @ [ProjectsGet (rdId (rd w))])
                      (prefixedProject (rdId (rd w)))") (auto split: if_splits)
    then have "log (snd (resourceGoogleProjectRead config w)) =
        log w @ [ProjectsGet (rdId (rd w)), GetBillingInfo (prefixedProject (rdId (rd w)))]"
      by auto
    then show ?thesis by simp
  qed
qed

text \<open>
  C5. When the fetched project's lifecycle state is anything but \<^verbatim>\<open>ACTIVE\<close>, Read
  clears the identifier and returns success. The only remote call is the fetch of the
  project, and nothing else in the record changes: no field is set and the billing
  information is not requested.
\<close>

theorem Read_not_active:
  assumes "Projects_Get config (log w) (rdId (rd w)) = Inr p"
      and "LifecycleState p \<noteq> ''ACTIVE''"
  shows "resourceGoogleProjectRead config w =
           (Ok (), w\<lparr>rd := (rd w)\<lparr>rdId := ''''\<rparr>,
                     log := log w @ [ProjectsGet (rdId (rd w)), SetId '''']\<rparr>)"
  using assms by (simp add: resourceGoogleProjectRead_def Let_def SetId_w_def emit_def)

theorem Read_not_active_witness:
  "resourceGoogleProjectRead inactiveConfig sampleWorld =
     (Ok (), sampleWorld\<lparr>rd := sampleData\<lparr>rdId := ''''\<rparr>,
                          log := [ProjectsGet ''p1'', SetId '''']\<rparr>)"
  using Read_not_active [of inactiveConfig sampleWorld
      "sampleProject\<lparr>LifecycleState := ''DELETE_REQUESTED''\<rparr>"]
  by (simp add: sample_defs)

text \<open>
  C4. When Read fetches an active project and its billing information carries a
  non-empty account name: if the name begins with \<^verbatim>\<open>billingAccounts/\<close>, Read succeeds
  and the billing field holds the name with that prefix removed once (putting the prefix
  back in front of the stored value gives the remote name); otherwise Read returns the
  parse error and the billing field keeps the value it had.
\<close>

theorem Read_billing_prefix:
  assumes "Projects_Get config (log w) (rdId (rd w)) = Inr p"
      and "LifecycleState p = ''ACTIVE''"
      and "Projects_GetBillingInfo config (log w @ [ProjectsGet (rdId (rd w))])
             (prefixedProject (rdId (rd w))) = Inr ba"
      and "BillingAccountName ba \<noteq> ''''"
  shows "if HasPrefix (BillingAccountName ba) ''billingAccounts/'' then
           fst (resourceGoogleProjectRead config w) = Ok () \<and>
           ''billingAccounts/'' @ strs (rd (snd (resourceGoogleProjectRead config w))) ''billing_account''
             = BillingAccountName ba
         else
           fst (resourceGoogleProjectRead config w) =
             Err (Errorf (''Error parsing billing account for project %q. ''
                          @ ''Expected value to begin with '' @ apostrophe
                          @ ''billingAccounts/'' @ apostrophe @ '' but got %s'')
                    [AString (prefixedProject (rdId (rd w))), AString (BillingAccountName ba)]) \<and>
           strs (rd (snd (resourceGoogleProjectRead config w))) ''billing_account''
             = strs (rd w) ''billing_account''"
proof (cases "HasPrefix (BillingAccountName ba) ''billingAccounts/''")
  case True
  from TrimPrefix_append [OF True] True show ?thesis
    using Read_active(1,2) [OF assms(1-3)] assms(4) by simp
next
  case False
  then show ?thesis
    using Read_active(1,2) [OF assms(1-3)] assms(4) by simp
qed

theorem Read_billing_prefix_witness:
  "fst (resourceGoogleProjectRead sampleConfig sampleWorld) = Ok () \<and>
   strs (rd (snd (resourceGoogleProjectRead sampleConfig sampleWorld))) ''billing_account'' = ''OLD'' \<and>
   fst (resourceGoogleProjectRead foreignBillingConfig sampleWorld) =
     Err (Errorf (''Error parsing billing account for project %q. ''
                  @ ''Expected value to begin with '' @ apostrophe
                  @ ''billingAccounts/'' @ apostrophe @ '' but got %s'')
            [AString ''projects/p1'', AString ''accounts/OLD'']) \<and>
   strs (rd (snd (resourceGoogleProjectRead foreignBillingConfig sampleWorld))) ''billing_account''
     = ''NEW''"
  using
    Read_billing_prefix [of sampleConfig sampleWorld sampleProject
      "\<lparr>BillingAccountName = ''billingAccounts/OLD'', ForceSendFields = []\<rparr>"]
    Read_billing_prefix [of foreignBillingConfig sampleWorld sampleProject
      "\<lparr>BillingAccountName = ''accounts/OLD'', ForceSendFields = []\<rparr>"]
  by (simp add: sample_defs HasPrefix_def prefixedProject_def)

text \<open>
  C10. When Read fetches an active project and its billing information carries an empty
  account name, Read succeeds and leaves the billing field of the record as it was: a value
  stored before stays, although the remote side reports no linkage.
\<close>

theorem Read_unlinked_keeps_billing:
  assumes "Projects_Get config (log w) (rdId (rd w)) = Inr p"
      and "LifecycleState p = ''ACTIVE''"
      and "Projects_GetBillingInfo config (log w @ [ProjectsGet (rdId (rd w))])
             (prefixedProject (rdId (rd w))) = Inr ba"
      and "BillingAccountName ba = ''''"
  shows "fst (resourceGoogleProjectRead config w) = Ok () \<and>
         Get (rd (snd (resourceGoogleProjectRead config w))) ''billing_account''
           = Get (rd w) ''billing_account''"
  using Read_active(1,2) [OF assms(1-3)] assms(4) by (simp add: Get_strs)

theorem Read_unlinked_keeps_billing_witness:
  "fst (resourceGoogleProjectRead unlinkedConfig sampleWorld) = Ok () \<and>
   Get (rd (snd (resourceGoogleProjectRead unlinkedConfig sampleWorld))) ''billing_account''
     = VString ''NEW''"
  using Read_unlinked_keeps_billing [of unlinkedConfig sampleWorld sampleProject
      "\<lparr>BillingAccountName = '''', ForceSendFields = []\<rparr>"]
  by (simp add: sample_defs Get_strs)

section \<open>Parent resolution\<close>

lemma parseFolderId_VString:
  "parseFolderId (VString s) = Some (if HasPrefix s ''folders/'' then drop 8 s else s)"
  by (simp add: parseFolderId_def)

lemma parseFolderId_strips:
  "parseFolderId (VString (''folders/'' @ x)) = Some x"
  "\<not> HasPrefix x ''folders/'' \<Longrightarrow> parseFolderId (VString x) = Some x"
  by (simp_all add: parseFolderId_VString HasPrefix_def)

text \<open>
  C2, as the code has it. \<^verbatim>\<open>getParentResourceId\<close> assigns the organization first and
  the folder second, so a folder that is set always wins: the parent is the folder (type
  \<^verbatim>\<open>folder\<close>, a leading \<^verbatim>\<open>folders/\<close> removed once) whenever the folder field is
  set, whether or not the organization field is set too; it is the organization (type
  \<^verbatim>\<open>organization\<close>) only when the folder field is unset and the organization field is
  set; with neither set the parent of the project is left as it was.
\<close>

theorem getParentResourceId_resolution:
  "getParentResourceId d p =
     Ok (if snd (GetOk d ''folder_id'') then
           p\<lparr>Parent := Some \<lparr>ResId = (if HasPrefix (strs d ''folder_id'') ''folders/''
                                         then drop 8 (strs d ''folder_id'')
                                         else strs d ''folder_id''),
                                ResType = ''folder''\<rparr>\<rparr>
         else if snd (GetOk d ''org_id'') then
           p\<lparr>Parent := Some \<lparr>ResId = strs d ''org_id'', ResType = ''organization''\<rparr>\<rparr>
         else p)"
  by (simp add: getParentResourceId_def GetOk_keys parseFolderId_VString)

theorem getParentResourceId_resolution_witness:
  "getParentResourceId bothParentsData sampleProject =
     Ok (sampleProject\<lparr>Parent := Some \<lparr>ResId = ''456'', ResType = ''folder''\<rparr>\<rparr>) \<and>
   getParentResourceId (sampleData\<lparr>strs := (strs sampleData)(''org_id'' := ''123'')\<rparr>) sampleProject =
     Ok (sampleProject\<lparr>Parent := Some \<lparr>ResId = ''123'', ResType = ''organization''\<rparr>\<rparr>) \<and>
   getParentResourceId sampleData sampleProject = Ok sampleProject"
  using
    getParentResourceId_resolution [of bothParentsData sampleProject]
    getParentResourceId_resolution [of "sampleData\<lparr>strs := (strs sampleData)(''org_id'' := ''123'')\<rparr>"
      sampleProject]
    getParentResourceId_resolution [of sampleData sampleProject]
  by (simp add: sample_defs GetOk_keys HasPrefix_def)

text \<open>
  C2 as stated fails: with the organization set to 123 and the folder set to
  \<^verbatim>\<open>folders/456\<close>, the folder is the resolved parent although the organization field is
  set.
\<close>

theorem getParentResourceId_both_set_counterexample:
  "snd (GetOk bothParentsData ''org_id'') \<and> snd (GetOk bothParentsData ''folder_id'') \<and>
   getParentResourceId bothParentsData sampleProject
     = Ok (sampleProject\<lparr>Parent := Some \<lparr>ResId = ''456'', ResType = ''folder''\<rparr>\<rparr>)"
  by (simp add: getParentResourceId_def GetOk_keys parseFolderId_VString HasPrefix_def
        bothParentsData_def sampleData_def)

section \<open>Billing linkage\<close>

lemma billingPoll_log:
  "\<exists>es. log (snd (billingPoll config name retries w)) = log w @ es \<and>
        (\<forall>e \<in> set es. \<not> isUpdateBillingInfo e)"
proof (induction "3 - retries" arbitrary: retries w)
  case 0
  then show ?case by (subst billingPoll.simps) simp
next
  case (Suc n)
  obtain r w1 where rd: "resourceGoogleProjectRead config w = (r, w1)"
    by (cases "resourceGoogleProjectRead config w")
  from Read_log [of config w] rd obtain es where
    es: "log w1 = log w @ es" "\<forall>e \<in> set es. \<not> isUpdateBillingInfo e"
    by auto
  from Suc.hyps(2) have lt: "retries < 3" and n: "n = 3 - (retries + 1)" by simp_all
  show ?case
  proof (cases "r = Ok () \<and> strs (rd w1) ''billing_account'' \<noteq> name")
    case True
    then have step: "billingPoll config name retries w =
        billingPoll config name (retries + 1) (emit (Sleep 3) w1)"
      using rd lt by (subst billingPoll.simps) (simp add: getString_keys)
    from Suc.hyps(1) [OF n, of "emit (Sleep 3) w1"] obtain es' where
      "log (snd (billingPoll config name (retries + 1) (emit (Sleep 3) w1)))
         = log w @ es @ Sleep 3 # es'" "\<forall>e \<in> set es'. \<not> isUpdateBillingInfo e"
      using es by auto
    with es step show ?thesis
      by (intro exI [of _ "es @ Sleep 3 # es'"]) auto
  next
    case False
    then have "snd (billingPoll config name retries w) = w1"
      using rd lt by (subst billingPoll.simps) (cases r; auto simp add: getString_keys)
    with es show ?thesis by auto
  qed
qed

text \<open>
  \<^verbatim>\<open>updateProjectBillingAccount\<close> with the reads of the record resolved. The last
  branch is the one taken when the poll ends with the billing field different from the
  desired value: building the error message reads the key \<^verbatim>\<open>billding_account\<close>, which
  the schema does not declare, so \<^verbatim>\<open>d.Get\<close> yields nil and the assertion to string
  panics.
\<close>

lemma updateProjectBillingAccount_unfold:
  assumes "name = strs (rd w) ''billing_account''"
    and "ba = (if name \<noteq> '''' then
                  \<lparr>BillingAccountName = ''billingAccounts/'' @ name, ForceSendFields = []\<rparr>
               else ProjectBillingInfo_zero)"
    and "w1 = emit (UpdateBillingInfo (prefixedProject (rdId (rd w))) ba) w"
  shows "updateProjectBillingAccount config w =
      (case Projects_UpdateBillingInfo config (log w) (prefixedProject (rdId (rd w))) ba of
           Inl err \<Rightarrow>
             (Err (Errorf ''Error setting billing account %q for project %q: %v''
                     [AString name, AString (prefixedProject (rdId (rd w))), AError err]),
              Set_w w1 ''billing_account'' (VString ''''))
         | Inr _ \<Rightarrow>
             (case billingPoll config name 0 w1 of
                (Ok u, w2) \<Rightarrow>
                  if strs (rd w2) ''billing_account'' \<noteq> name
                  then (Panic (InterfaceConversion ''nil'' ''string''), w2)
                  else (Ok (), w2)
              | (Err e, w2) \<Rightarrow> (Err e, w2)
              | (Panic m, w2) \<Rightarrow> (Panic m, w2)))"
proof -
  have ba: "(if name \<noteq> '''' then ProjectBillingInfo_zero\<lparr>BillingAccountName := ''billingAccounts/'' @ name\<rparr>
             else ProjectBillingInfo_zero) = ba"
    by (simp add: assms(2) ProjectBillingInfo_zero_def)
  obtain r w2 where poll: "billingPoll config name 0 w1 = (r, w2)"
    by (cases "billingPoll config name 0 w1")
  show ?thesis
    unfolding updateProjectBillingAccount_def Let_def getString_keys thenR_simps
      assms(1) [symmetric] ba assms(3) [symmetric] poll
    by (cases "Projects_UpdateBillingInfo config (log w) (prefixedProject (rdId (rd w))) ba";
        cases r; simp add: getString_keys)
qed

text \<open>
  C7. A run of the billing linkage submits exactly one billing update. Its payload is the
  empty \<^verbatim>\<open>ProjectBillingInfo\<close> when the desired billing account is empty (no name and
  no forced field, so no billing account name is serialised) and carries the name
  \<^verbatim>\<open>billingAccounts/\<close> followed by the desired value otherwise.
\<close>

theorem billing_payload:
  "filter isUpdateBillingInfo (newEvents w (snd (updateProjectBillingAccount config w))) =
     [UpdateBillingInfo (prefixedProject (rdId (rd w)))
        (if strs (rd w) ''billing_account'' = '''' then ProjectBillingInfo_zero
         else \<lparr>BillingAccountName = ''billingAccounts/'' @ strs (rd w) ''billing_account'',
               ForceSendFields = []\<rparr>)] \<and>
   \<not> sendsBillingAccountName ProjectBillingInfo_zero"
proof -
  define name where "name = strs (rd w) ''billing_account''"
  define ba where "ba = (if name \<noteq> '''' then
                  \<lparr>BillingAccountName = ''billingAccounts/'' @ name, ForceSendFields = []\<rparr>
               else ProjectBillingInfo_zero)"
  define w1 where "w1 = emit (UpdateBillingInfo (prefixedProject (rdId (rd w))) ba) w"
  obtain es where es: "log (snd (billingPoll config name 0 w1)) = log w1 @ es"
      "\<forall>e \<in> set es. \<not> isUpdateBillingInfo e"
    using billingPoll_log by blast
  have "snd (updateProjectBillingAccount config w) = Set_w w1 ''billing_account'' (VString '''') \<or>
        snd (updateProjectBillingAccount config w) = snd (billingPoll config name 0 w1)"
    unfolding updateProjectBillingAccount_unfold [OF name_def ba_def w1_def]
    by (cases "Projects_UpdateBillingInfo config (log w) (prefixedProject (rdId (rd w))) ba";
        cases "billingPoll config name 0 w1"; cases "fst (billingPoll config name 0 w1)"; simp)
  then have "log (snd (updateProjectBillingAccount config w)) = log w1 \<or>
        log (snd (updateProjectBillingAccount config w)) = log w1 @ es"
    using es(1) by auto
  then have "filter isUpdateBillingInfo (newEvents w (snd (updateProjectBillingAccount config w)))
      = [UpdateBillingInfo (prefixedProject (rdId (rd w))) ba]"
    using es(2) by (auto simp add: newEvents_def w1_def)
  then show ?thesis
    by (simp add: ba_def name_def sendsBillingAccountName_def ProjectBillingInfo_zero_def)
qed

theorem billing_payload_witness:
  "filter isUpdateBillingInfo (newEvents unlinkWorld (snd (updateProjectBillingAccount sampleConfig unlinkWorld)))
     = [UpdateBillingInfo ''projects/p1'' \<lparr>BillingAccountName = '''', ForceSendFields = []\<rparr>] \<and>
   filter isUpdateBillingInfo (newEvents sampleWorld (snd (updateProjectBillingAccount sampleConfig sampleWorld)))
     = [UpdateBillingInfo ''projects/p1''
          \<lparr>BillingAccountName = ''billingAccounts/NEW'', ForceSendFields = []\<rparr>]"
  using billing_payload [of unlinkWorld sampleConfig] billing_payload [of sampleWorld sampleConfig]
  by (simp add: sample_defs prefixedProject_def ProjectBillingInfo_zero_def)

text \<open>
  C3. The desired billing account is NEW, the submission succeeds and every read of the
  remote side reports the account OLD. The record is read three times, with a sleep after
  each mismatch; the billing field ends as OLD, the value read back. The run then ends in
  a panic of the type assertion on \<^verbatim>\<open>d.Get("billding_account")\<close>, not in the
  time-out error.
\<close>

theorem updateProjectBillingAccount_timeout_panics:
  "fst (updateProjectBillingAccount sampleConfig sampleWorld)
     = Panic (InterfaceConversion ''nil'' ''string'') \<and>
   strs (rd (snd (updateProjectBillingAccount sampleConfig sampleWorld))) ''billing_account''
     = ''OLD'' \<and>
   strs (rd sampleWorld) ''billing_account'' = ''NEW'' \<and>
   log (snd (updateProjectBillingAccount sampleConfig sampleWorld)) =
     [UpdateBillingInfo ''projects/p1''
        \<lparr>BillingAccountName = ''billingAccounts/NEW'', ForceSendFields = []\<rparr>,
      ProjectsGet ''p1'', GetBillingInfo ''projects/p1'', Sleep 3,
      ProjectsGet ''p1'', GetBillingInfo ''projects/p1'', Sleep 3,
      ProjectsGet ''p1'', GetBillingInfo ''projects/p1'', Sleep 3]"
  by (simp add: model_defs billingPoll.simps sampleConfig_def sampleWorld_def sampleData_def
        sampleProject_def)

section \<open>Update\<close>

lemma thenR_prefix:
  assumes "prefix l (log (snd r))"
      and "\<And>a w. prefix (log w) (log (snd (f a w)))"
  shows "prefix l (log (snd (thenR r f)))"
proof (cases r)
  case (Pair x w)
  with assms(1) have "prefix l (log w)" by simp
  moreover have "x = Ok a \<Longrightarrow> prefix (log w) (log (snd (f a w)))" for a
    using assms(2) by simp
  ultimately show ?thesis
    using Pair by (cases x) (auto simp add: thenR_def intro: prefix_order.trans)
qed

lemma updateProjectBillingAccount_prefix:
  "prefix (log w) (log (snd (updateProjectBillingAccount config w)))"
proof -
  define name where "name = strs (rd w) ''billing_account''"
  define ba where "ba = (if name \<noteq> '''' then
                  \<lparr>BillingAccountName = ''billingAccounts/'' @ name, ForceSendFields = []\<rparr>
               else ProjectBillingInfo_zero)"
  define w1 where "w1 = emit (UpdateBillingInfo (prefixedProject (rdId (rd w))) ba) w"
  obtain es where es: "log (snd (billingPoll config name 0 w1)) = log w1 @ es"
    using billingPoll_log by blast
  have "snd (updateProjectBillingAccount config w) = Set_w w1 ''billing_account'' (VString '''') \<or>
        snd (updateProjectBillingAccount config w) = snd (billingPoll config name 0 w1)"
    unfolding updateProjectBillingAccount_unfold [OF name_def ba_def w1_def]
    by (cases "Projects_UpdateBillingInfo config (log w) (prefixedProject (rdId (rd w))) ba";
        cases "billingPoll config name 0 w1"; cases "fst (billingPoll config name 0 w1)"; simp)
  then have "log (snd (updateProjectBillingAccount config w)) = log w1 \<or>
        log (snd (updateProjectBillingAccount config w)) = log w1 @ es"
    using es by auto
  then show ?thesis
    by (auto simp add: w1_def)
qed

lemma Update_refetches_first:
  "prefix (log w @ [ProjectsGet (rdId (rd w))]) (log (snd (resourceGoogleProjectUpdate config w)))"
proof -
  define pid where "pid = rdId (rd w)"
  define w1 where "w1 = emit (ProjectsGet pid) w"
  have w1: "log w1 = log w @ [ProjectsGet pid]"
    by (simp add: w1_def)
  show ?thesis
  proof (cases "Projects_Get config (log w) pid")
    case (Inl err)
    then have "log (snd (resourceGoogleProjectUpdate config w)) = log w1"
      by (cases err)
         (simp_all add: resourceGoogleProjectUpdate_def getString_keys Let_def
            pid_def [symmetric] w1_def [symmetric])
    then show ?thesis by (simp add: w1 pid_def)
  next
    case (Inr p)
    have "prefix (log w1) (log (snd (resourceGoogleProjectUpdate config w)))"
      unfolding resourceGoogleProjectUpdate_def getString_keys thenR_simps Let_def
        pid_def [symmetric] w1_def [symmetric] Inr sum.case
    proof (intro thenR_prefix, goal_cases)
      case 1
      then show ?case
        by (simp split: sum.split)
    next
      case (2 p w)
      then show ?case
        by (simp split: sum.split res.split)
    next
      case (3 q v p w)
      have "prefix (log w) (log (snd (thenR (updateProjectBillingAccount config w) (\<lambda>_. Pair (Ok p)))))"
        by (rule thenR_prefix [OF updateProjectBillingAccount_prefix]) simp
      then show ?case by simp
    next
      case 4
      then show ?case
        by (simp split: sum.split)
    next
      case 5
      then show ?case by simp
    qed
    then show ?thesis by (simp add: w1 pid_def)
  qed
qed

text \<open>
  C8. The first remote call of every Update is the fetch of the project. When that fetch
  succeeds and labels is the only changed field, the remote calls of the Update are the
  fetch and exactly one project update, whose payload is the fetched project with its
  labels replaced by the labels of the record; name and parent are the fetched ones.
\<close>

theorem Update_only_labels:
  "prefix (log w @ [ProjectsGet (rdId (rd w))])
     (log (snd (resourceGoogleProjectUpdate config w))) \<and>
   (Projects_Get config (log w) (rdId (rd w)) = Inr p \<and> set (changed (rd w)) = {''labels''} \<longrightarrow>
      log (snd (resourceGoogleProjectUpdate config w)) =
        log w @ [ProjectsGet (rdId (rd w)),
                 ProjectsUpdate (ProjectId p) (p\<lparr>Labels := maps (rd w) ''labels''\<rparr>)])"
proof (intro conjI impI)
  show "prefix (log w @ [ProjectsGet (rdId (rd w))])
     (log (snd (resourceGoogleProjectUpdate config w)))"
    by (rule Update_refetches_first)
next
  assume "Projects_Get config (log w) (rdId (rd w)) = Inr p \<and> set (changed (rd w)) = {''labels''}"
  then show "log (snd (resourceGoogleProjectUpdate config w)) =
        log w @ [ProjectsGet (rdId (rd w)),
                 ProjectsUpdate (ProjectId p) (p\<lparr>Labels := maps (rd w) ''labels''\<rparr>)]"
    by (simp add: resourceGoogleProjectUpdate_def getString_keys Let_def
          HasChange_def Partial_def expandLabels_def split: sum.splits)
qed

theorem Update_only_labels_witness:
  "prefix [ProjectsGet ''p1''] (log (snd (resourceGoogleProjectUpdate sampleConfig labelsChangedWorld))) \<and>
   log (snd (resourceGoogleProjectUpdate sampleConfig labelsChangedWorld)) =
     [ProjectsGet ''p1'',
      ProjectsUpdate ''p1''
        \<lparr>ProjectId = ''p1'', Name = ''Test'',
         Parent = Some \<lparr>ResId = ''123'', ResType = ''organization''\<rparr>,
         Labels = [(''env'', ''prod'')], LifecycleState = ''ACTIVE'', ProjectNumber = 42\<rparr>]"
  using Update_only_labels [of labelsChangedWorld sampleConfig sampleProject]
  by (simp add: sample_defs expandLabels_def)

section \<open>Delete\<close>

text \<open>
  C9. With \<^verbatim>\<open>skip_delete\<close> set, Delete makes no remote call and clears the identifier.
  Without it, Delete submits the remote deletion of the project: a failure is returned as
  an error and leaves the identifier as it was, a success clears the identifier.
\<close>

theorem Delete_skip:
  "resourceGoogleProjectDelete config w =
     (if bools (rd w) ''skip_delete'' then
        (Ok (), w\<lparr>rd := (rd w)\<lparr>rdId := ''''\<rparr>, log := log w @ [SetId '''']\<rparr>)
      else
        (case Projects_Delete config (log w) (rdId (rd w)) of
           Inl err \<Rightarrow>
             (Err (Errorf ''Error deleting project %q: %s'' [AString (rdId (rd w)), AError err]),
              w\<lparr>log := log w @ [ProjectsDelete (rdId (rd w))]\<rparr>)
         | Inr u \<Rightarrow>
             (Ok (), w\<lparr>rd := (rd w)\<lparr>rdId := ''''\<rparr>,
                       log := log w @ [ProjectsDelete (rdId (rd w)), SetId '''']\<rparr>)))"
  by (simp add: resourceGoogleProjectDelete_def getBool_keys thenR_def Let_def SetId_w_def emit_def split: sum.splits)

theorem Delete_skip_witness:
  "resourceGoogleProjectDelete sampleConfig
      (sampleWorld\<lparr>rd := sampleData\<lparr>bools := (bools sampleData)(''skip_delete'' := True)\<rparr>\<rparr>) =
     (Ok (), \<lparr>rd = sampleData\<lparr>rdId := '''', bools := (bools sampleData)(''skip_delete'' := True)\<rparr>,
              log = [SetId '''']\<rparr>) \<and>
   resourceGoogleProjectDelete sampleConfig sampleWorld =
     (Ok (), \<lparr>rd = sampleData\<lparr>rdId := ''''\<rparr>, log = [ProjectsDelete ''p1'', SetId '''']\<rparr>) \<and>
   resourceGoogleProjectDelete
      (sampleConfig\<lparr>Projects_Delete := (\<lambda>h pid. Inl (GoogleApiError 403 ''forbidden''))\<rparr>)
      sampleWorld =
     (Err (Errorf ''Error deleting project %q: %s''
             [AString ''p1'', AError (GoogleApiError 403 ''forbidden'')]),
      \<lparr>rd = sampleData, log = [ProjectsDelete ''p1'']\<rparr>)"
  using
    Delete_skip [of sampleConfig
      "sampleWorld\<lparr>rd := sampleData\<lparr>bools := (bools sampleData)(''skip_delete'' := True)\<rparr>\<rparr>"]
    Delete_skip [of sampleConfig sampleWorld]
    Delete_skip [of "sampleConfig\<lparr>Projects_Delete := (\<lambda>h pid. Inl (GoogleApiError 403 ''forbidden''))\<rparr>"
      sampleWorld]
  by (simp add: sample_defs)

section \<open>Create and the cascading network deletion\<close>

text \<open>
  C6. Let \<open>project\<close> be the creation request Create builds from the record. If the
  submission fails, Create returns the creation error, and the identifier is not touched.
  If it succeeds, the identifier is set to the project id before the wait on the
  operation starts; a failing wait clears the identifier again and its error is returned,
  and after a successful wait Create carries on with the identifier set.
\<close>

theorem Create_identifier:
  assumes "getParentResourceId (rd w)
             \<lparr>ProjectId = strs (rd w) ''project_id'', Name = strs (rd w) ''name'', Parent = None,
              Labels = [], LifecycleState = '''', ProjectNumber = 0\<rparr> = Ok pr"
      and "project = (if snd (GetOk (rd w) ''labels'') then pr\<lparr>Labels := expandLabels (rd w)\<rparr>
                      else pr)"
      and "pid = strs (rd w) ''project_id''"
  shows "resourceGoogleProjectCreate fuel config w =
           (case Projects_Create config (log w) project of
              Inl err \<Rightarrow>
                Some (Err (Errorf ''Error creating project %s (%s): %s.''
                             [AString (ProjectId project), AString (Name project), AError err]),
                      w\<lparr>log := log w @ [ProjectsCreate project]\<rparr>)
            | Inr op \<Rightarrow>
                (case resourceManagerOperationWait config
                        (log w @ [ProjectsCreate project, SetId pid]) op ''project to create'' of
                   Some waitErr \<Rightarrow>
                     Some (Err waitErr,
                           w\<lparr>rd := (rd w)\<lparr>rdId := ''''\<rparr>,
                             log := log w @ [ProjectsCreate project, SetId pid,
                                             ResourceManagerOperationWait op ''project to create'',
                                             SetId '''']\<rparr>)
                 | None \<Rightarrow>
                     createAfterWait fuel config project
                       (w\<lparr>rd := (rd w)\<lparr>rdId := pid\<rparr>,
                          log := log w @ [ProjectsCreate project, SetId pid,
                                          ResourceManagerOperationWait op
                                            ''project to create'']\<rparr>)))"
  using assms
  by (simp add: resourceGoogleProjectCreate_def getString_keys Let_def emit_def SetId_w_def
        split: sum.splits option.splits)

theorem Create_identifier_witness:
  "resourceGoogleProjectCreate 0 waitFailsConfig sampleWorld =
     Some (Err (OtherError ''operation failed''),
       \<lparr>rd = sampleData\<lparr>rdId := ''''\<rparr>,
        log = [ProjectsCreate \<lparr>ProjectId = ''p1'', Name = ''Test'', Parent = None,
                               Labels = [(''env'', ''prod'')], LifecycleState = '''',
                               ProjectNumber = 0\<rparr>,
               SetId ''p1'',
               ResourceManagerOperationWait ''operations/create'' ''project to create'',
               SetId '''']\<rparr>) \<and>
   resourceGoogleProjectCreate 0
       (sampleConfig\<lparr>Projects_Create := (\<lambda>h p. Inl (GoogleApiError 409 ''exists''))\<rparr>)
       (sampleWorld\<lparr>rd := sampleData\<lparr>rdId := ''''\<rparr>\<rparr>) =
     Some (Err (Errorf ''Error creating project %s (%s): %s.''
                  [AString ''p1'', AString ''Test'', AError (GoogleApiError 409 ''exists'')]),
       \<lparr>rd = sampleData\<lparr>rdId := ''''\<rparr>,
        log = [ProjectsCreate \<lparr>ProjectId = ''p1'', Name = ''Test'', Parent = None,
                               Labels = [(''env'', ''prod'')], LifecycleState = '''',
                               ProjectNumber = 0\<rparr>]\<rparr>)"
proof -
  let ?p0 = "\<lparr>ProjectId = ''p1'', Name = ''Test'', Parent = None, Labels = [],
        LifecycleState = [], ProjectNumber = 0\<rparr>"
  let ?project = "\<lparr>ProjectId = ''p1'', Name = ''Test'', Parent = None,
        Labels = [(''env'', ''prod'')], LifecycleState = [], ProjectNumber = 0\<rparr>"
  let ?refuse = "sampleConfig\<lparr>Projects_Create := (\<lambda>h p. Inl (GoogleApiError 409 ''exists''))\<rparr>"
  let ?fresh = "sampleWorld\<lparr>rd := sampleData\<lparr>rdId := []\<rparr>\<rparr>"
  have a1: "getParentResourceId (rd sampleWorld)
             \<lparr>ProjectId = strs (rd sampleWorld) ''project_id'',
              Name = strs (rd sampleWorld) ''name'', Parent = None,
              Labels = [], LifecycleState = [], ProjectNumber = 0\<rparr> = Ok ?p0"
    by (simp add: getParentResourceId_def GetOk_keys sampleWorld_def sampleData_def)
  have a2: "?project = (if snd (GetOk (rd sampleWorld) ''labels'')
                        then ?p0\<lparr>Labels := expandLabels (rd sampleWorld)\<rparr> else ?p0)"
    by (simp add: GetOk_keys expandLabels_def sampleWorld_def sampleData_def)
  have a3: "''p1'' = strs (rd sampleWorld) ''project_id''"
    by (simp add: sampleWorld_def sampleData_def)
  have b1: "getParentResourceId (rd ?fresh)
             \<lparr>ProjectId = strs (rd ?fresh) ''project_id'',
              Name = strs (rd ?fresh) ''name'', Parent = None,
              Labels = [], LifecycleState = [], ProjectNumber = 0\<rparr> = Ok ?p0"
    by (simp add: getParentResourceId_def GetOk_keys sampleWorld_def sampleData_def)
  have b2: "?project = (if snd (GetOk (rd ?fresh) ''labels'')
                        then ?p0\<lparr>Labels := expandLabels (rd ?fresh)\<rparr> else ?p0)"
    by (simp add: GetOk_keys expandLabels_def sampleWorld_def sampleData_def)
  have b3: "''p1'' = strs (rd ?fresh) ''project_id''"
    by (simp add: sampleWorld_def sampleData_def)
  have "resourceGoogleProjectCreate 0 waitFailsConfig sampleWorld =
     Some (Err (OtherError ''operation failed''),
       \<lparr>rd = sampleData\<lparr>rdId := []\<rparr>,
        log = [ProjectsCreate ?project, SetId ''p1'',
               ResourceManagerOperationWait ''operations/create'' ''project to create'',
               SetId []]\<rparr>)"
    unfolding Create_identifier [OF a1 a2 a3, of 0 waitFailsConfig]
    by (simp add: waitFailsConfig_def sampleConfig_def sampleWorld_def)
  moreover have "resourceGoogleProjectCreate 0 ?refuse ?fresh =
     Some (Err (Errorf ''Error creating project %s (%s): %s.''
                  [AString ''p1'', AString ''Test'', AError (GoogleApiError 409 ''exists'')]),
       \<lparr>rd = sampleData\<lparr>rdId := []\<rparr>, log = [ProjectsCreate ?project]\<rparr>)"
    unfolding Create_identifier [OF b1 b2 b3, of 0 ?refuse]
    by (simp add: sampleConfig_def sampleWorld_def)
  ultimately show ?thesis by simp
qed

lemma deleteFirewalls_log:
  "\<exists>es. log (snd (deleteFirewalls config projectId firewalls w)) = log w @ es \<and>
        (\<forall>e \<in> set es. \<not> isFirewallsList e)"
proof (induction firewalls arbitrary: w)
  case Nil
  then show ?case by simp
next
  case (Cons firewall rest)
  show ?case
  proof (cases "Firewalls_Delete config (log w) projectId (FirewallName firewall)")
    case (Inl err)
    then show ?thesis by (simp add: Let_def)
  next
    case (Inr op)
    define w1 where "w1 = emit (FirewallsDelete projectId (FirewallName firewall)) w"
    define w2 where "w2 = emit (ComputeSharedOperationWait op projectId ''Deleting Firewall'') w1"
    show ?thesis
    proof (cases "computeSharedOperationWait config (log w1) op projectId ''Deleting Firewall''")
      case (Some err)
      with Inr show ?thesis by (simp add: Let_def w1_def)
    next
      case None
      with Inr have "deleteFirewalls config projectId (firewall # rest) w
          = deleteFirewalls config projectId rest w2"
        by (simp add: Let_def w1_def w2_def)
      moreover from Cons.IH [of w2] obtain es where
        "log (snd (deleteFirewalls config projectId rest w2)) = log w2 @ es"
        "\<forall>e \<in> set es. \<not> isFirewallsList e"
        by blast
      ultimately have "log (snd (deleteFirewalls config projectId (firewall # rest) w))
          = log w @ (FirewallsDelete projectId (FirewallName firewall)
                     # ComputeSharedOperationWait op projectId ''Deleting Firewall'' # es)
        \<and> (\<forall>e \<in> set (FirewallsDelete projectId (FirewallName firewall)
                     # ComputeSharedOperationWait op projectId ''Deleting Firewall'' # es).
              \<not> isFirewallsList e)"
        by (simp add: w1_def w2_def)
      then show ?thesis by blast
    qed
  qed
qed

text \<open>
  Whatever the remote side answers, every listing request of the pagination loop is the
  same request: the project, the filter on the network, and no page token.
\<close>

lemma paginateFirewalls_requests:
  assumes "paginateFirewalls fuel config projectId networkLink token w = Some (r, w')"
  shows "\<exists>es. log w' = log w @ es \<and>
           (\<forall>e \<in> set es. isFirewallsList e \<longrightarrow>
              e = FirewallsList \<lparr>listProject = projectId,
                                  listFilter = Some (''network eq '' @ networkLink),
                                  listPageToken = None\<rparr>)"
  using assms
proof (induction fuel arbitrary: token w)
  case 0
  then show ?case by simp
next
  case (Suc fuel)
  define call where "call = \<lparr>listProject = projectId,
      listFilter = Some (''network eq '' @ networkLink), listPageToken = None\<rparr>"
  define w1 where "w1 = emit (FirewallsList call) w"
  have call: "Filter (Firewalls_List projectId) (''network eq '' @ networkLink) = call"
    by (simp add: Filter_def Firewalls_List_def call_def)
  have step: "paginateFirewalls (Suc fuel) config projectId networkLink token w =
      (case Firewalls_List_Do config (log w) call of
         Inl err \<Rightarrow>
           Some (Err (Errorf ''Error listing firewall rules in proj: %s'' [AError err]), w1)
       | Inr resp \<Rightarrow>
           (case deleteFirewalls config projectId (Items resp) w1 of
              (Ok u, w2) \<Rightarrow>
                if NextPageToken resp \<noteq> [] then
                  paginateFirewalls fuel config projectId networkLink (NextPageToken resp) w2
                else Some (Ok (), w2)
            | (Err e, w2) \<Rightarrow> Some (Err e, w2)
            | (Panic m, w2) \<Rightarrow> Some (Panic m, w2)))"
    unfolding paginateFirewalls.simps Let_def call w1_def by (rule refl)
  show ?case
  proof (cases "Firewalls_List_Do config (log w) call")
    case (Inl err)
    with Suc.prems have "log w' = log w @ [FirewallsList call]"
      unfolding step by (auto simp add: w1_def)
    then show ?thesis by (simp add: call_def)
  next
    case (Inr resp)
    obtain r2 w2 where del: "deleteFirewalls config projectId (Items resp) w1 = (r2, w2)"
      by (cases "deleteFirewalls config projectId (Items resp) w1")
    from deleteFirewalls_log [of config projectId "Items resp" w1] del obtain es where
      es: "log w2 = log w @ FirewallsList call # es" "\<forall>e \<in> set es. \<not> isFirewallsList e"
      by (auto simp add: w1_def)
    show ?thesis
    proof (cases "r2 = Ok () \<and> NextPageToken resp \<noteq> []")
      case True
      with Suc.prems Inr del have
        "paginateFirewalls fuel config projectId networkLink (NextPageToken resp) w2 = Some (r, w')"
        unfolding step by simp
      from Suc.IH [OF this] obtain es' where
        "log w' = log w2 @ es'"
        "\<forall>e \<in> set es'. isFirewallsList e \<longrightarrow> e = FirewallsList call"
        unfolding call_def by blast
      with es have "log w' = log w @ (FirewallsList call # es @ es') \<and>
          (\<forall>e \<in> set (FirewallsList call # es @ es'). isFirewallsList e \<longrightarrow> e = FirewallsList call)"
        by auto
      then show ?thesis unfolding call_def by blast
    next
      case False
      with Suc.prems Inr del have "w' = w2"
        unfolding step by (cases r2) (auto split: if_splits)
      with es have "log w' = log w @ (FirewallsList call # es) \<and>
          (\<forall>e \<in> set (FirewallsList call # es). isFirewallsList e \<longrightarrow> e = FirewallsList call)"
        by auto
      then show ?thesis unfolding call_def by blast
    qed
  qed
qed

text \<open>
  C1. The remote side answers the first listing with one rule and the next-page token t1,
  and later listings with one rule and an empty token. The loop lists again after the
  first answer and stops after the second, then deletes the network. The second listing
  request is the first one again: it does not carry the token t1.
\<close>

theorem forceDeleteComputeNetwork_second_page_without_token:
  "forceDeleteComputeNetwork (Suc (Suc (Suc 0))) twoPageConfig ''p1'' ''default'' sampleWorld =
     Some (Ok (),
       sampleWorld\<lparr>log :=
         [FirewallsList \<lparr>listProject = ''p1'',
            listFilter = Some (''network eq https://www.googleapis.com/compute/v1/projects/p1/global/networks/default''),
            listPageToken = None\<rparr>,
          FirewallsDelete ''p1'' ''default-allow-ssh'',
          ComputeSharedOperationWait ''operations/firewall'' ''p1'' ''Deleting Firewall'',
          FirewallsList \<lparr>listProject = ''p1'',
            listFilter = Some (''network eq https://www.googleapis.com/compute/v1/projects/p1/global/networks/default''),
            listPageToken = None\<rparr>,
          FirewallsDelete ''p1'' ''default-allow-icmp'',
          ComputeSharedOperationWait ''operations/firewall'' ''p1'' ''Deleting Firewall'',
          DeleteComputeNetwork ''p1'' ''default'']\<rparr>)"
  by (simp add: forceDeleteComputeNetwork_def Let_def twoPageConfig_def sampleConfig_def
        sampleWorld_def Filter_def Firewalls_List_def emit_def)

end
